theory Spec2Isabelle
  imports Main
begin

section \<open>Strings, errors and the string methods the module calls\<close>

text \<open>
  The module \<open>hyperopt_utils.py\<close> is a chain of text transforms. Python strings are
  modelled as \<open>string\<close> (a list of characters, each a code point below 256), Python
  integers as \<open>int\<close>, and every exception the module can raise as a value of \<open>error\<close>
  returned in the left summand of a sum type. A failing \<open>assert\<close> is \<open>AssertionError\<close>
  (assertions are taken to be enabled).
\<close>

datatype error =
    AssertionError
  | IndexError
  | KeyError
  | AttributeError
  | SyntaxError
  | ValueError
  | TypeError

abbreviation NL :: char where
  "NL \<equiv> CHR 0x0A"

abbreviation DQUOTE :: char where
  "DQUOTE \<equiv> CHR 0x22"

abbreviation SQUOTE :: char where
  "SQUOTE \<equiv> CHR 0x27"

text \<open>\<open>str.split("\n")\<close>: the pieces between newline characters; never empty.\<close>

fun split_lines :: "string \<Rightarrow> string list" where
  "split_lines [] = [[]]"
| "split_lines (c # cs) =
     (if c = NL then [] # split_lines cs
      else (case split_lines cs of
              [] \<Rightarrow> [[c]]
            | l # ls \<Rightarrow> (c # l) # ls))"

text \<open>\<open>str.count(ch)\<close> for a one-character argument.\<close>

definition count_char :: "string \<Rightarrow> char \<Rightarrow> int" where
  "count_char s c = int (count_list s c)"

text \<open>\<open>str.find(pattern)\<close>: the lowest index where \<open>pattern\<close> starts, or \<open>-1\<close>.\<close>

fun find_from :: "string \<Rightarrow> string \<Rightarrow> int \<Rightarrow> int" where
  "find_from [] pat i = (if pat = [] then i else - 1)"
| "find_from (c # cs) pat i =
     (if take (length pat) (c # cs) = pat then i else find_from cs pat (i + 1))"

definition py_find :: "string \<Rightarrow> string \<Rightarrow> int" where
  "py_find s pat = find_from s pat 0"

text \<open>
  \<open>str.isspace\<close> on one character, for code points below 256; it is also the class
  \<open>\s\<close> of a \<open>str\<close> pattern and what \<open>str.strip()\<close> removes.
\<close>

definition py_isspace :: "char \<Rightarrow> bool" where
  "py_isspace c \<longleftrightarrow>
     c \<in> set [CHR 0x09, CHR 0x0A, CHR 0x0B, CHR 0x0C, CHR 0x0D, CHR 0x1C, CHR 0x1D,
              CHR 0x1E, CHR 0x1F, CHR 0x20, CHR 0x85, CHR 0xA0]"

definition py_strip :: "string \<Rightarrow> string" where
  "py_strip s = rev (dropWhile py_isspace (rev (dropWhile py_isspace s)))"

text \<open>\<open>s[i]\<close>: a negative index counts from the end, an index out of range raises.\<close>

definition py_getitem :: "string \<Rightarrow> int \<Rightarrow> error + char" where
  "py_getitem s i =
     (let n = int (length s); j = (if i < 0 then n + i else i)
      in if 0 \<le> j \<and> j < n then Inr (s ! nat j) else Inl IndexError)"

section \<open>The whitespace normalisation of \<open>convert_to_single_line_blocks\<close>\<close>

text \<open>
  The segmenter rewrites each physical line with
  \<^verbatim>\<open>re.sub(r'(\s([?,.!"]))|(?<=\[|\()(.*?)(?=\)|\])', lambda x: x.group().strip(), line)\<close>.
  The functions below follow the matching engine on this one pattern. At a position
  \<open>p\<close> the first alternative is tried first: a whitespace character followed by one of
  \<open>? , . ! "\<close>. The second alternative needs an opening bracket just before \<open>p\<close>, then
  takes as few non-newline characters as possible up to a closing bracket. A match is
  given as the position where it ends.
\<close>

definition alt_space_punct :: "string \<Rightarrow> nat \<Rightarrow> nat option" where
  "alt_space_punct s p =
     (if p + 1 < length s \<and> py_isspace (s ! p)
         \<and> s ! (p + 1) \<in> set [CHR ''?'', CHR '','', CHR ''.'', CHR ''!'', DQUOTE]
      then Some (p + 2) else None)"

text \<open>
  The lazy \<open>.*?\<close> followed by the look-ahead, on the text from the current position:
  the number of characters taken before a closing bracket is next.
\<close>

fun lazy_to_close :: "string \<Rightarrow> nat option" where
  "lazy_to_close [] = None"
| "lazy_to_close (c # cs) =
     (if c = CHR '')'' \<or> c = CHR '']'' then Some 0
      else if c = NL then None
      else map_option Suc (lazy_to_close cs))"

text \<open>The same when the engine refuses the empty match: at least one character is taken.\<close>

definition lazy_to_close_nonempty :: "string \<Rightarrow> nat option" where
  "lazy_to_close_nonempty t =
     (case t of
        [] \<Rightarrow> None
      | c # cs \<Rightarrow> if c = NL then None else map_option Suc (lazy_to_close cs))"

definition alt_inside_brackets :: "string \<Rightarrow> nat \<Rightarrow> bool \<Rightarrow> nat option" where
  "alt_inside_brackets s p must_advance =
     (if 0 < p \<and> p \<le> length s \<and> (s ! (p - 1) = CHR ''['' \<or> s ! (p - 1) = CHR ''('')
      then map_option (\<lambda>k. p + k)
             (if must_advance then lazy_to_close_nonempty (drop p s)
              else lazy_to_close (drop p s))
      else None)"

definition match_at :: "string \<Rightarrow> nat \<Rightarrow> bool \<Rightarrow> nat option" where
  "match_at s p must_advance =
     (case alt_space_punct s p of
        Some e \<Rightarrow> Some e
      | None \<Rightarrow> alt_inside_brackets s p must_advance)"

text \<open>
  The search for the leftmost match at the positions \<open>p, p + 1, \<dots>, p + n\<close>. Only the
  first position is tried under \<open>must_advance\<close>.
\<close>

fun search :: "string \<Rightarrow> nat \<Rightarrow> bool \<Rightarrow> nat \<Rightarrow> (nat \<times> nat) option" where
  "search s p must_advance 0 = map_option (Pair p) (match_at s p must_advance)"
| "search s p must_advance (Suc n) =
     (case match_at s p must_advance of
        Some e \<Rightarrow> Some (p, e)
      | None \<Rightarrow> search s (Suc p) False n)"

lemma lazy_to_close_bound: "lazy_to_close t = Some k \<Longrightarrow> k < length t"
  by (induction t arbitrary: k) (auto split: if_splits)

lemma lazy_to_close_nonempty_bound:
  "lazy_to_close_nonempty t = Some k \<Longrightarrow> 0 < k \<and> k < length t"
  by (auto simp: lazy_to_close_nonempty_def split: list.splits if_splits
           dest: lazy_to_close_bound)

lemma match_at_bounds:
  assumes "match_at s p adv = Some e"
  shows "p \<le> e \<and> e \<le> length s \<and> (adv \<longrightarrow> p < e)"
proof (cases "alt_space_punct s p")
  case (Some e')
  with assms show ?thesis
    by (auto simp: match_at_def alt_space_punct_def split: if_splits)
next
  case None
  with assms have a: "alt_inside_brackets s p adv = Some e"
    by (simp add: match_at_def)
  show ?thesis
  proof (cases adv)
    case True
    with a obtain k where "lazy_to_close_nonempty (drop p s) = Some k" and "e = p + k"
      by (auto simp: alt_inside_brackets_def split: if_splits)
    with True show ?thesis
      using lazy_to_close_nonempty_bound [of "drop p s" k] by auto
  next
    case False
    with a obtain k where "lazy_to_close (drop p s) = Some k" and "e = p + k"
      by (auto simp: alt_inside_brackets_def split: if_splits)
    with False show ?thesis
      using lazy_to_close_bound [of "drop p s" k] by auto
  qed
qed

lemma search_bounds:
  "search s p adv n = Some (b, e) \<Longrightarrow>
     p \<le> b \<and> b \<le> e \<and> e \<le> length s \<and> (adv \<longrightarrow> p < e)"
proof (induction n arbitrary: p adv)
  case 0
  then show ?case
    by (auto dest: match_at_bounds)
next
  case (Suc n)
  show ?case
  proof (cases "match_at s p adv")
    case None
    with Suc.prems have "search s (Suc p) False n = Some (b, e)"
      by simp
    from Suc.IH [OF this] show ?thesis
      by auto
  next
    case (Some e')
    with Suc.prems show ?thesis
      by (auto dest: match_at_bounds)
  qed
qed

text \<open>
  The substitution loop of \<open>re.sub\<close>: search from the end of the previous match, copy
  the text before the match, append the stripped match, and go on from the end of the
  match; after an empty match the next one must advance.
\<close>

function sub_from :: "string \<Rightarrow> nat \<Rightarrow> bool \<Rightarrow> string" where
  "sub_from s pos must_advance =
     (case search s pos must_advance (length s - pos) of
        None \<Rightarrow> drop pos s
      | Some (b, e) \<Rightarrow>
          take (b - pos) (drop pos s) @ py_strip (take (e - b) (drop b s))
            @ sub_from s e (e = b))"
  by pat_completeness auto
termination
proof (relation "measure (\<lambda>(s, pos, adv). 2 * (length s - pos) + (if adv then 0 else 1))",
       goal_cases)
  case 1
  show ?case by simp
next
  case (2 s pos must_advance x b e)
  then have "search s pos must_advance (length s - pos) = Some (b, e)"
    by simp
  from search_bounds [OF this] show ?case
    by auto
qed

declare sub_from.simps [simp del]

definition re_sub_strip :: "string \<Rightarrow> string" where
  "re_sub_strip line = sub_from line 0 False"

section \<open>\<open>convert_to_single_line_blocks\<close>\<close>

text \<open>
  The \<open>while\<close> loop over the physical lines, with the state \<open>blocks\<close>, \<open>new_block\<close>
  and \<open>n_diff\<close>. It returns the blocks and the last \<open>n_diff\<close>, or the failed assertion.
\<close>

fun blocks_loop ::
  "string list \<Rightarrow> string list \<Rightarrow> string \<Rightarrow> int \<Rightarrow> error + (string list \<times> int)" where
  "blocks_loop [] blocks new_block n_diff = Inr (blocks, n_diff)"
| "blocks_loop (l # ls) blocks new_block n_diff =
     (let n_diff' = n_diff + (count_char l (CHR ''('') - count_char l (CHR '')''))
      in if \<not> 0 \<le> n_diff' then Inl AssertionError
         else let new_block' = new_block @ re_sub_strip l
              in if n_diff' = 0 then blocks_loop ls (blocks @ [new_block']) [] 0
                 else blocks_loop ls blocks new_block' n_diff')"

definition convert_to_single_line_blocks :: "string \<Rightarrow> error + string list" where
  "convert_to_single_line_blocks code =
     (case blocks_loop (split_lines code) [] [] 0 of
        Inl e \<Rightarrow> Inl e
      | Inr (blocks, n_diff) \<Rightarrow> if n_diff = 0 then Inr blocks else Inl AssertionError)"

section \<open>\<open>find_matching_parenthesis\<close>\<close>

text \<open>
  The table \<open>parenthesis_pairs\<close> as the dictionary built from it: the first character of
  each pair maps to the second.
\<close>

definition parenthesis_pairs :: "(string \<times> string) list" where
  "parenthesis_pairs =
     [(''('', '')''), (''{'', ''}''), (''['', '']''),
      ([SQUOTE], [SQUOTE]), ([DQUOTE], [DQUOTE])]"

text \<open>
  The \<open>for\<close> loop over \<open>range(start_ind + 1, len(line))\<close> with the counter \<open>n_open\<close>;
  running off the end of the range is the \<open>IndexError\<close> raised after the loop. The
  test against \<open>parenthesis_type\<close> comes first, as in the source.
\<close>

fun matching_loop :: "string \<Rightarrow> string \<Rightarrow> string \<Rightarrow> int list \<Rightarrow> int \<Rightarrow> error + int" where
  "matching_loop line parenthesis_type matching [] n_open = Inl IndexError"
| "matching_loop line parenthesis_type matching (i # is) n_open =
     (case py_getitem line i of
        Inl e \<Rightarrow> Inl e
      | Inr c \<Rightarrow>
          if [c] = parenthesis_type
          then matching_loop line parenthesis_type matching is (n_open + 1)
          else if [c] = matching
          then (if n_open - 1 = 0 then Inr i
                else matching_loop line parenthesis_type matching is (n_open - 1))
          else matching_loop line parenthesis_type matching is n_open)"

definition find_matching_parenthesis ::
  "string \<Rightarrow> int \<Rightarrow> string \<Rightarrow> string option \<Rightarrow> error + int" where
  "find_matching_parenthesis line start_ind parenthesis_type matching =
     (case py_getitem line start_ind of
        Inl e \<Rightarrow> Inl e
      | Inr c \<Rightarrow>
          if [c] \<noteq> parenthesis_type then Inl AssertionError
          else (case (case matching of
                        Some m \<Rightarrow> Inr m
                      | None \<Rightarrow> (case map_of parenthesis_pairs parenthesis_type of
                                   None \<Rightarrow> Inl KeyError
                                 | Some m \<Rightarrow> Inr m)) of
                  Inl e \<Rightarrow> Inl e
                | Inr m \<Rightarrow>
                    matching_loop line parenthesis_type m
                      [start_ind + 1 .. int (length line) - 1] 1))"

section \<open>\<open>parse_function_call\<close>\<close>

text \<open>
  The parser \<open>ast.parse\<close> and the evaluator \<open>ast.literal_eval\<close> belong to the Python
  library, not to the module; they are parameters of the model. What the module reads of
  a syntax tree is modelled as data: a module body is a list of statements, a statement
  either carries an expression in its \<open>value\<close> attribute or does not (it has no such
  attribute, or the attribute is \<open>None\<close>), and an expression is a \<open>Name\<close> with its
  \<open>id\<close>, a \<open>Call\<close> with its \<open>func\<close>, \<open>args\<close> and \<open>keywords\<close>, or a node of any
  other class, whose content \<open>'x\<close> only \<open>literal_eval\<close> looks at. A keyword carries
  its \<open>arg\<close> (\<open>None\<close> for \<open>**kwargs\<close>) and its \<open>value\<close>. Reading an attribute that a
  node does not have is \<open>AttributeError\<close>; the one node class that has \<open>args\<close> without
  being a call, \<open>Lambda\<close>, fails as well, in Python with \<open>TypeError\<close>.

  A Python value is either a \<open>str\<close> or an object of another type \<open>'v\<close>: the module
  only ever asks a value whether it is a \<open>str\<close>.
\<close>

datatype 'x expr =
    Name string
  | Call "'x expr" "'x expr list" "'x keyword list"
  | OtherExpr 'x
and 'x keyword =
    Keyword "string option" "'x expr"

datatype 'x stmt = ValueStmt "'x expr" | OtherStmt

datatype 'v pyval = PyStr string | PyObj 'v

text \<open>
  An entry of the parsed argument list: the name of a positional argument (a \<open>str\<close>) or
  a tuple of a keyword name and its value.
\<close>

datatype 'v arg = Positional string | KeywordArg "string option" "'v pyval"

text \<open>\<open>[arg.id for arg in func_call_node.args]\<close>\<close>

fun arg_ids :: "'x expr list \<Rightarrow> error + string list" where
  "arg_ids [] = Inr []"
| "arg_ids (a # as) =
     (case a of
        Name n \<Rightarrow> (case arg_ids as of Inl e \<Rightarrow> Inl e | Inr ns \<Rightarrow> Inr (n # ns))
      | _ \<Rightarrow> Inl AttributeError)"

text \<open>\<open>[(keyword.arg, ast.literal_eval(keyword.value)) for keyword in func_call_node.keywords]\<close>\<close>

fun keyword_values ::
  "('x expr \<Rightarrow> error + 'v pyval) \<Rightarrow> 'x keyword list \<Rightarrow> error + 'v arg list" where
  "keyword_values literal_eval [] = Inr []"
| "keyword_values literal_eval (Keyword k e # kws) =
     (case literal_eval e of
        Inl err \<Rightarrow> Inl err
      | Inr v \<Rightarrow> (case keyword_values literal_eval kws of
                   Inl err \<Rightarrow> Inl err
                 | Inr rest \<Rightarrow> Inr (KeywordArg k v # rest)))"

definition parse_function_call ::
  "(string \<Rightarrow> error + 'x stmt list) \<Rightarrow> ('x expr \<Rightarrow> error + 'v pyval) \<Rightarrow> string
     \<Rightarrow> error + 'v arg list" where
  "parse_function_call ast_parse literal_eval func_call_str =
     (case ast_parse func_call_str of
        Inl e \<Rightarrow> Inl e
      | Inr body \<Rightarrow>
          (case body of
             [] \<Rightarrow> Inl IndexError
           | OtherStmt # _ \<Rightarrow> Inl AttributeError
           | ValueStmt func_call_node # _ \<Rightarrow>
               (case func_call_node of
                  Call f args keywords \<Rightarrow>
                    (case arg_ids args of
                       Inl e \<Rightarrow> Inl e
                     | Inr arg_list \<Rightarrow>
                         (case keyword_values literal_eval keywords of
                            Inl e \<Rightarrow> Inl e
                          | Inr keyword_list \<Rightarrow> Inr (map Positional arg_list @ keyword_list)))
                | _ \<Rightarrow> Inl AttributeError)))"

section \<open>\<open>transform_args\<close>\<close>

text \<open>
  A dictionary is an association list in insertion order, with distinct keys. How a
  value that is not a \<open>str\<close> is turned into text inside an f-string (its \<open>format\<close>) is
  the parameter \<open>fmt\<close>; a \<open>str\<close> is inserted as it is, and the keyword name \<open>None\<close>
  prints as \<open>None\<close>.
\<close>

definition parse_arg :: "'v pyval \<Rightarrow> 'v pyval" where
  "parse_arg arg' =
     (case arg' of
        PyObj v \<Rightarrow> PyObj v
      | PyStr s \<Rightarrow> PyStr ([SQUOTE] @ s @ [SQUOTE]))"

definition py_format :: "('v \<Rightarrow> string) \<Rightarrow> 'v pyval \<Rightarrow> string" where
  "py_format fmt x = (case x of PyStr s \<Rightarrow> s | PyObj v \<Rightarrow> fmt v)"

definition py_name :: "string option \<Rightarrow> string" where
  "py_name k = (case k of None \<Rightarrow> ''None'' | Some n \<Rightarrow> n)"

text \<open>\<open>map_args[k]\<close> guarded by \<open>k in map_args\<close>; the keys of \<open>map_args\<close> are strings.\<close>

definition dict_get :: "(string \<times> 'a) list \<Rightarrow> string option \<Rightarrow> 'a option" where
  "dict_get d k = (case k of None \<Rightarrow> None | Some n \<Rightarrow> map_of d n)"

text \<open>
  The first loop, over \<open>args\<close>, with the state \<open>output\<close> and \<open>seen_args\<close>. In the
  branch where \<open>k\<close> is in \<open>map_args\<close> it is one of its keys, a string, and that string
  is what \<open>seen_args.add(k)\<close> stores.
\<close>

fun args_loop ::
  "('v \<Rightarrow> string) \<Rightarrow> (string \<times> 'v pyval) list \<Rightarrow> 'v arg list \<Rightarrow> string \<Rightarrow> string set
     \<Rightarrow> string \<times> string set" where
  "args_loop fmt map_args [] output seen_args = (output, seen_args)"
| "args_loop fmt map_args (Positional a # rest) output seen_args =
     args_loop fmt map_args rest (output @ a @ '', '') seen_args"
| "args_loop fmt map_args (KeywordArg k v # rest) output seen_args =
     (case dict_get map_args k of
        None \<Rightarrow>
          args_loop fmt map_args rest
            (output @ py_name k @ ''='' @ py_format fmt (parse_arg v) @ '', '') seen_args
      | Some mv \<Rightarrow>
          args_loop fmt map_args rest
            (output @ py_name k @ ''='' @ py_format fmt (parse_arg mv) @ '', '')
            (insert (py_name k) seen_args))"

text \<open>The second loop, over \<open>map_args.items()\<close>.\<close>

fun items_loop ::
  "('v \<Rightarrow> string) \<Rightarrow> (string \<times> 'v pyval) list \<Rightarrow> string \<Rightarrow> string set \<Rightarrow> string" where
  "items_loop fmt [] output seen_args = output"
| "items_loop fmt ((arg, arg_val) # rest) output seen_args =
     (if arg \<in> seen_args then items_loop fmt rest output seen_args
      else items_loop fmt rest
             (output @ arg @ ''='' @ py_format fmt (parse_arg arg_val) @ '', '') seen_args)"

definition transform_args ::
  "('v \<Rightarrow> string) \<Rightarrow> 'v arg list \<Rightarrow> (string \<times> 'v pyval) list \<Rightarrow> string" where
  "transform_args fmt args map_args =
     (case args_loop fmt map_args args [] {} of
        (output, seen_args) \<Rightarrow>
          (let output' = items_loop fmt map_args output seen_args
           in if drop (length output' - 2) output' = '', ''
              then take (length output' - 2) output'
              else output'))"

section \<open>\<open>assign_hyperopt\<close>\<close>

text \<open>
  The inner loop \<open>for function in space\<close> on one block. \<open>arguments\<close> is the copy of
  \<open>space\<close> the source builds, so \<open>arguments[function]\<close> is the entry of \<open>function\<close>.
  The indices \<open>ind\<close> and \<open>end_ind\<close> are not negative where they are used to slice.
\<close>

fun functions_loop ::
  "(string \<Rightarrow> error + 'x stmt list) \<Rightarrow> ('x expr \<Rightarrow> error + 'v pyval) \<Rightarrow> ('v \<Rightarrow> string)
     \<Rightarrow> (string \<times> (string \<times> 'v pyval) list) list \<Rightarrow> string list \<Rightarrow> string
     \<Rightarrow> error + string" where
  "functions_loop ast_parse literal_eval fmt arguments [] line = Inr line"
| "functions_loop ast_parse literal_eval fmt arguments (function # rest) line =
     (let pattern = function @ ''('';
          ind = py_find line pattern
      in if ind \<noteq> - 1
         then (case find_matching_parenthesis line (ind + int (length pattern) - 1) ''('' None of
                 Inl e \<Rightarrow> Inl e
               | Inr end_ind \<Rightarrow>
                   (case parse_function_call ast_parse literal_eval
                           (take (nat (end_ind + 1) - nat ind) (drop (nat ind) line)) of
                      Inl e \<Rightarrow> Inl e
                    | Inr args \<Rightarrow>
                        (case map_of arguments function of
                           None \<Rightarrow> Inl KeyError
                         | Some map_args \<Rightarrow>
                             functions_loop ast_parse literal_eval fmt arguments rest
                               (take (nat ind) line @ pattern @ transform_args fmt args map_args
                                  @ drop (nat end_ind) line))))
         else functions_loop ast_parse literal_eval fmt arguments rest line)"

text \<open>The outer loop \<open>for line in blocks\<close>, with the state \<open>blackbox_code\<close>.\<close>

fun lines_loop ::
  "(string \<Rightarrow> error + 'x stmt list) \<Rightarrow> ('x expr \<Rightarrow> error + 'v pyval) \<Rightarrow> ('v \<Rightarrow> string)
     \<Rightarrow> (string \<times> (string \<times> 'v pyval) list) list \<Rightarrow> string list \<Rightarrow> string
     \<Rightarrow> error + string" where
  "lines_loop ast_parse literal_eval fmt space [] blackbox_code = Inr blackbox_code"
| "lines_loop ast_parse literal_eval fmt space (line # rest) blackbox_code =
     (case functions_loop ast_parse literal_eval fmt space (map fst space) line of
        Inl e \<Rightarrow> Inl e
      | Inr line' \<Rightarrow>
          lines_loop ast_parse literal_eval fmt space rest (blackbox_code @ line' @ [NL]))"

definition assign_hyperopt ::
  "(string \<Rightarrow> error + 'x stmt list) \<Rightarrow> ('x expr \<Rightarrow> error + 'v pyval) \<Rightarrow> ('v \<Rightarrow> string)
     \<Rightarrow> string \<Rightarrow> (string \<times> (string \<times> 'v pyval) list) list \<Rightarrow> error + string" where
  "assign_hyperopt ast_parse literal_eval fmt code space =
     (case convert_to_single_line_blocks code of
        Inl e \<Rightarrow> Inl e
      | Inr blocks \<Rightarrow> lines_loop ast_parse literal_eval fmt space blocks [])"

section \<open>Notions of the specification\<close>

subsection \<open>The segmenter\<close>




subsection \<open>The argument rewriter\<close>

text \<open>
  The policy of the rewriter, rule by rule. A \<open>str\<close> value is written between single
  quotes, any other value by its textual form; a positional argument is written as its
  name and a keyword argument as \<open>name=value\<close>.
\<close>

definition value_text :: "('v \<Rightarrow> string) \<Rightarrow> 'v pyval \<Rightarrow> string" where
  "value_text fmt v = (case v of PyStr s \<Rightarrow> [SQUOTE] @ s @ [SQUOTE] | PyObj x \<Rightarrow> fmt x)"

definition arg_text :: "('v \<Rightarrow> string) \<Rightarrow> 'v arg \<Rightarrow> string" where
  "arg_text fmt a =
     (case a of
        Positional n \<Rightarrow> n
      | KeywordArg k v \<Rightarrow> py_name k @ ''='' @ value_text fmt v)"

text \<open>A keyword argument whose name is in the override mapping takes the mapping's value.\<close>

definition override :: "(string \<times> 'v pyval) list \<Rightarrow> 'v arg \<Rightarrow> 'v arg" where
  "override overrides a =
     (case a of
        Positional n \<Rightarrow> Positional n
      | KeywordArg k v \<Rightarrow>
          (case dict_get overrides k of
             None \<Rightarrow> KeywordArg k v
           | Some mv \<Rightarrow> KeywordArg k mv))"

fun keyword_names :: "'v arg list \<Rightarrow> string list" where
  "keyword_names [] = []"
| "keyword_names (Positional n # rest) = keyword_names rest"
| "keyword_names (KeywordArg None v # rest) = keyword_names rest"
| "keyword_names (KeywordArg (Some k) v # rest) = k # keyword_names rest"

text \<open>
  The entries of the mapping whose name is not among the original keyword names, as new
  keyword arguments in the order of the mapping.
\<close>

definition appended :: "'v arg list \<Rightarrow> (string \<times> 'v pyval) list \<Rightarrow> 'v arg list" where
  "appended args overrides =
     map (\<lambda>(k, v). KeywordArg (Some k) v)
       (filter (\<lambda>(k, v). k \<notin> set (keyword_names args)) overrides)"

definition strip_separator :: "string \<Rightarrow> string" where
  "strip_separator out =
     (if drop (length out - 2) out = '', '' then take (length out - 2) out else out)"

definition rewrite_args_spec ::
  "('v \<Rightarrow> string) \<Rightarrow> 'v arg list \<Rightarrow> (string \<times> 'v pyval) list \<Rightarrow> string" where
  "rewrite_args_spec fmt args overrides =
     strip_separator
       (concat (map (\<lambda>a. arg_text fmt a @ '', '')
                  (map (override overrides) args @ appended args overrides)))"




subsection \<open>The library on the examples\<close>

text \<open>
  For the examples the two library functions are tables. \<open>example_parse\<close> holds the
  trees that \<open>ast.parse\<close> builds for three call texts, the nodes that are neither a
  name nor a call kept as their source text. \<open>example_eval\<close> evaluates the literal
  nodes of these trees to objects, each named by its literal text and formatted as that
  text, and raises \<open>ValueError\<close> on every other node, as \<open>ast.literal_eval\<close> does
  on the call \<open>g(1)\<close>.
\<close>

definition example_parse :: "string \<Rightarrow> error + string stmt list" where
  "example_parse s =
     (if s = ''build(lr=0.1)''
      then Inr [ValueStmt (Call (Name ''build'') [] [Keyword (Some ''lr'') (OtherExpr ''0.1'')])]
      else if s = ''f(x, y, c={'k': '1'}, a=[1,2])''
      then Inr [ValueStmt (Call (Name ''f'') [Name ''x'', Name ''y'']
                  [Keyword (Some ''c'') (OtherExpr ''{'k': '1'}''),
                   Keyword (Some ''a'') (OtherExpr ''[1,2]'')])]
      else if s = ''f(a=g(1))''
      then Inr [ValueStmt (Call (Name ''f'') []
                  [Keyword (Some ''a'') (Call (Name ''g'') [OtherExpr ''1''] [])])]
      else Inl SyntaxError)"

definition example_eval :: "string expr \<Rightarrow> error + string pyval" where
  "example_eval e =
     (case e of
        OtherExpr t \<Rightarrow>
          if t \<in> set [''0.1'', ''1'', ''[1,2]'', ''{'k': '1'}''] then Inr (PyObj t)
          else Inl ValueError
      | _ \<Rightarrow> Inl ValueError)"

section \<open>The segmenter\<close>










text \<open>
  Claim C9. The balance count of \<open>convert_to_single_line_blocks\<close> is taken with
  \<open>str.count\<close> on the whole physical line, so a parenthesis inside a string literal is
  counted like any other. The one-line program \<^verbatim>\<open>x = ")"\<close> is balanced and valid, and
  the segmenter fails on it at the first assertion.
\<close>

theorem segment_counts_parenthesis_in_string_literal:
  "convert_to_single_line_blocks (''x = '' @ [DQUOTE] @ '')'' @ [DQUOTE]) = Inl AssertionError"
  by (simp add: convert_to_single_line_blocks_def count_char_def)

section \<open>The delimiter matcher\<close>

lemma matching_loop_same_delimiter:
  "matching_loop line q q is n_open \<noteq> Inr i"
  by (induction "is" arbitrary: n_open) (auto split: sum.splits)

lemma parenthesis_example:
  "find_matching_parenthesis ''f(a,b)'' 1 ''('' None = Inr 5"
  by (simp add: find_matching_parenthesis_def parenthesis_pairs_def py_getitem_def upto.simps)

text \<open>
  Claim C3. The claim says that \<open>find_matching_parenthesis\<close>, called on a quote
  character with the quote as delimiter type, returns the index of the closing quote.
  The code does not: the table pairs each quote with itself, so every later quote is
  taken by the first branch of the loop (\<open>line[i] == parenthesis_type\<close>) and counted as
  another opening. On the text \<^verbatim>\<open>'a'\<close> the call at index 0 ends in the \<open>IndexError\<close>
  after the loop instead of returning 2, and no index is ever returned for a quote,
  whatever the line and the start index are.
\<close>

theorem quote_delimiter_never_matched:
  "find_matching_parenthesis ([SQUOTE] @ ''a'' @ [SQUOTE]) 0 [SQUOTE] None = Inl IndexError
   \<and> find_matching_parenthesis line start_ind [SQUOTE] None \<noteq> Inr i
   \<and> find_matching_parenthesis line start_ind [DQUOTE] None \<noteq> Inr i"
proof (intro conjI)
  show "find_matching_parenthesis ([SQUOTE] @ ''a'' @ [SQUOTE]) 0 [SQUOTE] None = Inl IndexError"
    by (simp add: find_matching_parenthesis_def parenthesis_pairs_def py_getitem_def upto.simps)
next
  show "find_matching_parenthesis line start_ind [SQUOTE] None \<noteq> Inr i"
    by (auto simp: find_matching_parenthesis_def parenthesis_pairs_def
          matching_loop_same_delimiter split: sum.splits)
next
  show "find_matching_parenthesis line start_ind [DQUOTE] None \<noteq> Inr i"
    by (auto simp: find_matching_parenthesis_def parenthesis_pairs_def
          matching_loop_same_delimiter split: sum.splits)
qed

section \<open>The call parser\<close>

lemma arg_ids_names: "arg_ids (map Name names) = Inr names"
  by (induction names) simp_all




lemma keyword_values_map2:
  "length ks = length es \<Longrightarrow> map literal_eval es = map Inr vs \<Longrightarrow>
     keyword_values literal_eval (map2 Keyword ks es) = Inr (map2 KeywordArg ks vs)"
proof (induction ks es arbitrary: vs rule: list_induct2)
  case Nil
  then show ?case by simp
next
  case (Cons k ks e es)
  from Cons.prems obtain v vs' where vs: "vs = v # vs'" and v: "literal_eval e = Inr v"
    and rest: "map literal_eval es = map Inr vs'"
    by (cases vs) auto
  from Cons.IH [OF rest] v vs show ?case
    by simp
qed

text \<open>
  Claim C7. Let the text parse to a module whose first statement is a call with the
  positional arguments \<open>names\<close>, all of them names, and the keywords \<open>ks\<close> with the
  value nodes \<open>es\<close>, and let the evaluator return the values \<open>vs\<close> on these nodes.
  Then \<open>parse_function_call\<close> returns the positional names from left to right, followed
  by the keywords in source order, each paired with its evaluated value.
\<close>

theorem parse_function_call_result:
  assumes "ast_parse s = Inr (ValueStmt (Call f (map Name names) (map2 Keyword ks es)) # rest)"
    and "length ks = length es"
    and "map literal_eval es = map Inr vs"
  shows "parse_function_call ast_parse literal_eval s
           = Inr (map Positional names @ map2 KeywordArg ks vs)"
  using assms
  by (simp add: parse_function_call_def arg_ids_names keyword_values_map2)

text \<open>
  The example of the claim: \<^verbatim>\<open>f(x, y, c={'k': '1'}, a=[1,2])\<close> gives \<open>x\<close>, \<open>y\<close>,
  then \<open>c\<close> with the mapping and \<open>a\<close> with the list.
\<close>

theorem parse_function_call_result_witness:
  "parse_function_call example_parse example_eval ''f(x, y, c={'k': '1'}, a=[1,2])''
     = Inr [Positional ''x'', Positional ''y'',
            KeywordArg (Some ''c'') (PyObj ''{'k': '1'}''),
            KeywordArg (Some ''a'') (PyObj ''[1,2]'')]"
proof -
  have "parse_function_call example_parse example_eval ''f(x, y, c={'k': '1'}, a=[1,2])''
      = Inr (map Positional [''x'', ''y'']
             @ map2 KeywordArg [Some ''c'', Some ''a''] [PyObj ''{'k': '1'}'', PyObj ''[1,2]''])"
    by (rule parse_function_call_result [where f = "Name ''f'' :: string expr" and rest = "[]"
          and es = "[OtherExpr ''{'k': '1'}'', OtherExpr ''[1,2]'']"])
       (simp_all add: example_parse_def example_eval_def)
  then show ?thesis
    by simp
qed



section \<open>The argument rewriter\<close>

lemma py_format_parse_arg: "py_format fmt (parse_arg v) = value_text fmt v"
  by (cases v) (simp_all add: py_format_def parse_arg_def value_text_def)

lemma args_loop_closed_form:
  "args_loop fmt m args out seen =
     (out @ concat (map (\<lambda>a. arg_text fmt (override m a) @ '', '') args),
      seen \<union> (set (keyword_names args) \<inter> fst ` set m))"
proof (induction args arbitrary: out seen)
  case Nil
  show ?case by simp
next
  case (Cons a args)
  show ?case
  proof (cases a)
    case (Positional n)
    then show ?thesis
      by (simp add: Cons.IH arg_text_def override_def)
  next
    case (KeywordArg k v)
    show ?thesis
    proof (cases k)
      case None
      with KeywordArg show ?thesis
        by (simp add: Cons.IH arg_text_def override_def dict_get_def py_format_parse_arg)
    next
      case (Some n)
      show ?thesis
      proof (cases "map_of m n")
        case None
        then have "n \<notin> fst ` set m"
          by (simp add: map_of_eq_None_iff)
        with None Some KeywordArg show ?thesis
          by (simp add: Cons.IH arg_text_def override_def dict_get_def py_format_parse_arg)
      next
        case (Some mv)
        then have "n \<in> fst ` set m"
          by (metis map_of_eq_None_iff option.distinct(1))
        with Some \<open>k = Some n\<close> KeywordArg show ?thesis
          by (simp add: Cons.IH arg_text_def override_def dict_get_def py_format_parse_arg
                py_name_def)
      qed
    qed
  qed
qed

lemma items_loop_closed_form:
  "items_loop fmt items out seen =
     out @ concat (map (\<lambda>a. arg_text fmt a @ '', '')
                    (map (\<lambda>(k, v). KeywordArg (Some k) v)
                       (filter (\<lambda>(k, v). k \<notin> seen) items)))"
  by (induction items arbitrary: out)
     (auto simp: arg_text_def py_name_def py_format_parse_arg)

lemma unseen_filter:
  "filter (\<lambda>(k, v). k \<notin> {} \<union> (set ns \<inter> fst ` set m)) m = filter (\<lambda>(k, v). k \<notin> set ns) m"
  by (rule filter_cong) force+

lemma transform_args_closed_form:
  "transform_args fmt args m = rewrite_args_spec fmt args m"
proof -
  obtain out seen where loop: "args_loop fmt m args [] {} = (out, seen)"
    by (cases "args_loop fmt m args [] {}")
  then have out: "out = concat (map (\<lambda>a. arg_text fmt (override m a) @ '', '') args)"
    and seen: "seen = {} \<union> (set (keyword_names args) \<inter> fst ` set m)"
    by (simp_all only: args_loop_closed_form prod.inject append_Nil)
  have "transform_args fmt args m = strip_separator (items_loop fmt m out seen)"
    by (simp add: transform_args_def loop strip_separator_def Let_def)
  also have "items_loop fmt m out seen =
      out @ concat (map (\<lambda>a. arg_text fmt a @ '', '') (appended args m))"
    unfolding items_loop_closed_form seen unseen_filter appended_def ..
  also have "\<dots> = concat (map (\<lambda>a. arg_text fmt a @ '', '')
                        (map (override m) args @ appended args m))"
    by (simp add: out o_def)
  finally show ?thesis
    by (simp only: rewrite_args_spec_def)
qed



text \<open>
  Claim C2. \<open>transform_args\<close> computes what the policy says: the original arguments in
  their order, each keyword whose name is in the mapping with the mapping's value, then
  the entries of the mapping whose name is not among the original keyword names, each
  item followed by the separator, and the last separator cut. In particular, where the
  values \<open>a\<close> and \<open>b\<close> are formatted as \<open>0.01\<close> and \<open>0.9\<close>, the arguments \<open>x\<close> and
  \<open>lr=old\<close> with the mapping of \<open>lr\<close> to \<open>a\<close> and \<open>momentum\<close> to \<open>b\<close> give
  \<open>x, lr=0.01, momentum=0.9\<close>.
\<close>

theorem transform_args_follows_policy:
  "transform_args fmt args overrides = rewrite_args_spec fmt args overrides
   \<and> (fmt a = ''0.01'' \<and> fmt b = ''0.9'' \<longrightarrow>
        transform_args fmt [Positional ''x'', KeywordArg (Some ''lr'') old]
          [(''lr'', PyObj a), (''momentum'', PyObj b)] = ''x, lr=0.01, momentum=0.9'')"
  by (simp add: transform_args_closed_form rewrite_args_spec_def strip_separator_def
        override_def appended_def arg_text_def value_text_def dict_get_def py_name_def)

theorem transform_args_follows_policy_witness:
  "transform_args (\<lambda>t. t)
     [Positional ''x'', KeywordArg (Some ''lr'') (PyObj ''0.1'')]
     [(''lr'', PyObj ''0.01''), (''momentum'', PyObj ''0.9'')] = ''x, lr=0.01, momentum=0.9''"
proof -
  let ?fmt = "\<lambda>t::string. t"
  have "?fmt ''0.01'' = ''0.01'' \<and> ?fmt ''0.9'' = ''0.9''"
    by simp
  with transform_args_follows_policy
    [where fmt = ?fmt and a = "''0.01''" and b = "''0.9''" and old = "PyObj ''0.1''"]
  show ?thesis
    by blast
qed



text \<open>
  Claim C10. On an empty argument list and an empty override mapping
  \<open>transform_args\<close> returns the empty string: the test \<open>output[-2:] == ", "\<close> is false
  on the empty output and nothing is cut.
\<close>

theorem transform_args_empty: "transform_args fmt [] [] = []"
  by (simp add: transform_args_def)

section \<open>The top-level transform\<close>




subsection \<open>The runs of the examples\<close>


lemma blocks_model:
  "convert_to_single_line_blocks (''model = build(lr=0.1)'' @ [NL])
     = Inr [''model = build(lr=0.1)'', []]"
  by code_simp


lemma find_build: "py_find ''model = build(lr=0.1)'' ''build('' = 8"
  by (simp add: py_find_def)

lemma match_build:
  "find_matching_parenthesis ''model = build(lr=0.1)'' 13 ''('' None = Inr 20"
  by (simp add: find_matching_parenthesis_def parenthesis_pairs_def py_getitem_def upto.simps)

text \<open>
  The inner loop on the statement of the example, for any parser that reads the call
  as a call with the one keyword \<open>lr\<close>, any evaluator that accepts its value, and any
  formatting that writes \<open>a\<close> and \<open>b\<close> as \<open>0.01\<close> and \<open>0.9\<close>.
\<close>

lemma build_line_rewritten:
  assumes "ast_parse ''build(lr=0.1)''
             = Inr (ValueStmt (Call f [] [Keyword (Some ''lr'') e]) # rest)"
    and "literal_eval e = Inr old"
    and "fmt a = ''0.01''" and "fmt b = ''0.9''"
  shows "functions_loop ast_parse literal_eval fmt
           [(''build'', [(''lr'', PyObj a), (''momentum'', PyObj b)])] [''build'']
           ''model = build(lr=0.1)'' = Inr ''model = build(lr=0.01, momentum=0.9)''"
proof -
  have parse: "parse_function_call ast_parse literal_eval ''build(lr=0.1)''
                 = Inr [KeywordArg (Some ''lr'') old]"
    using assms(1,2) by (simp add: parse_function_call_def)
  have args: "transform_args fmt [KeywordArg (Some ''lr'') old]
                [(''lr'', PyObj a), (''momentum'', PyObj b)] = ''lr=0.01, momentum=0.9''"
    using assms(3,4)
    by (simp add: transform_args_def dict_get_def py_name_def py_format_def parse_arg_def)
  show ?thesis
    by (simp add: find_build match_build parse args Let_def)
qed

lemma example_line_rewritten:
  "functions_loop example_parse example_eval (\<lambda>t. t)
     [(''build'', [(''lr'', PyObj ''0.01''), (''momentum'', PyObj ''0.9'')])] [''build'']
     ''model = build(lr=0.1)'' = Inr ''model = build(lr=0.01, momentum=0.9)''"
  by (rule build_line_rewritten [where f = "Name ''build''" and e = "OtherExpr ''0.1''"
        and rest = "[]" and old = "PyObj ''0.1''"])
     (simp_all add: example_parse_def example_eval_def)





text \<open>
  Claim C1, as the code has it. On the code \<open>model = build(lr=0.1)\<close> followed by a
  newline, the output of \<open>assign_hyperopt\<close> is not the rewritten statement followed by
  one newline: the empty piece after the newline of the input is a statement of its own
  and gets its own newline.
\<close>

theorem assign_hyperopt_example_extra_newline:
  "assign_hyperopt example_parse example_eval (\<lambda>t. t) (''model = build(lr=0.1)'' @ [NL])
     [(''build'', [(''lr'', PyObj ''0.01''), (''momentum'', PyObj ''0.9'')])]
   \<noteq> Inr (''model = build(lr=0.01, momentum=0.9)'' @ [NL])"
proof -
  have empty: "functions_loop example_parse example_eval (\<lambda>t. t)
      [(''build'', [(''lr'', PyObj ''0.01''), (''momentum'', PyObj ''0.9'')])] [''build''] []
      = Inr []"
    by (simp add: py_find_def Let_def)
  have "assign_hyperopt example_parse example_eval (\<lambda>t. t) (''model = build(lr=0.1)'' @ [NL])
      [(''build'', [(''lr'', PyObj ''0.01''), (''momentum'', PyObj ''0.9'')])]
    = Inr (''model = build(lr=0.01, momentum=0.9)'' @ [NL, NL])"
    unfolding assign_hyperopt_def blocks_model
    by (simp add: example_line_rewritten empty del: functions_loop.simps)
  then show ?thesis
    by simp
qed

text \<open>
  Claim C1, amended. Let the parser read \<open>build(lr=0.1)\<close> as a call with the one
  keyword \<open>lr\<close>, let the evaluator accept its value, and let the values \<open>a\<close> and \<open>b\<close>
  be formatted as \<open>0.01\<close> and \<open>0.9\<close>. Then \<open>assign_hyperopt\<close> on the code
  \<open>model = build(lr=0.1)\<close> followed by a newline, with the space that maps \<open>build\<close> to
  \<open>lr: a\<close> and \<open>momentum: b\<close>, returns \<open>model = build(lr=0.01, momentum=0.9)\<close>
  followed by two newlines: \<open>lr\<close> is overridden, \<open>momentum\<close> is appended, and the empty
  last piece of the input is written as an empty line.
\<close>

theorem assign_hyperopt_example:
  assumes "ast_parse ''build(lr=0.1)''
             = Inr (ValueStmt (Call f [] [Keyword (Some ''lr'') e]) # rest)"
    and "literal_eval e = Inr old"
    and "fmt a = ''0.01''" and "fmt b = ''0.9''"
  shows "assign_hyperopt ast_parse literal_eval fmt (''model = build(lr=0.1)'' @ [NL])
           [(''build'', [(''lr'', PyObj a), (''momentum'', PyObj b)])]
         = Inr (''model = build(lr=0.01, momentum=0.9)'' @ [NL, NL])"
proof -
  have empty: "functions_loop ast_parse literal_eval fmt
                [(''build'', [(''lr'', PyObj a), (''momentum'', PyObj b)])] [''build''] [] = Inr []"
    by (simp add: py_find_def Let_def)
  show ?thesis
    unfolding assign_hyperopt_def blocks_model
    by (simp add: build_line_rewritten
            [where ast_parse = ast_parse and literal_eval = literal_eval and fmt = fmt
               and a = a and b = b, OF assms]
          empty del: functions_loop.simps)
qed

theorem assign_hyperopt_example_witness:
  "assign_hyperopt example_parse example_eval (\<lambda>t. t) (''model = build(lr=0.1)'' @ [NL])
     [(''build'', [(''lr'', PyObj ''0.01''), (''momentum'', PyObj ''0.9'')])]
   = Inr (''model = build(lr=0.01, momentum=0.9)'' @ [NL, NL])"
  by (rule assign_hyperopt_example [where f = "Name ''build''" and e = "OtherExpr ''0.1''"
        and rest = "[]" and old = "PyObj ''0.1''"])
     (simp_all add: example_parse_def example_eval_def)

end
